theory Spec2Isabelle
  imports Main "HOL-Library.Word"
begin

unbundle bit_operations_syntax

section \<open>Python values and exceptions\<close>

text \<open>
  Exceptions that leave a method of the entities are values of this type. A method
  of the model returns the entity as the exception left it, since Python keeps the
  assignments made before a \<^verbatim>\<open>raise\<close>.
\<close>

datatype exn = ValueError | TypeError | IndexError | AttributeError | StructError
  | UnicodeDecodeError | OverflowError

text \<open>
  \<^verbatim>\<open>int(pow(2, e))\<close> for an integer \<open>e\<close>: the power is an exact integer for
  \<open>e \<ge> 0\<close>; for \<open>e < 0\<close> it is a float in \<open>(0, 1/2]\<close> (or \<open>0.0\<close> after underflow),
  which \<^verbatim>\<open>int\<close> truncates to 0.
\<close>

definition int_pow2 :: "int \<Rightarrow> int" where
  "int_pow2 e = (if 0 \<le> e then 2 ^ nat e else 0)"

text \<open>
  \<^verbatim>\<open>np.bitwise_and(x, m)\<close> where \<open>x\<close> is an \<^verbatim>\<open>Optional[int]\<close> and \<open>m\<close> an int. On
  \<^verbatim>\<open>None\<close> numpy falls back to the object loop, which evaluates \<^verbatim>\<open>None & m\<close> and
  raises \<^verbatim>\<open>TypeError\<close>. Two Python ints are converted to 64-bit signed integers: an
  operand outside \<open>[-2^63, 2^63)\<close> raises \<^verbatim>\<open>OverflowError\<close>, otherwise the result is
  the bitwise AND.
\<close>

definition int64_range :: "int \<Rightarrow> bool" where
  "int64_range n \<longleftrightarrow> - (2 ^ 63) \<le> n \<and> n < 2 ^ 63"

definition bitwise_and :: "int option \<Rightarrow> int \<Rightarrow> exn + int" where
  "bitwise_and x m =
     (case x of
        None \<Rightarrow> Inl TypeError
      | Some r \<Rightarrow>
          if int64_range r \<and> int64_range m then Inr (r AND m) else Inl OverflowError)"

section \<open>The transport hub\<close>

text \<open>
  \<^verbatim>\<open>CALL_TYPE_REGISTER_HOLDING\<close> and \<^verbatim>\<open>CALL_TYPE_REGISTER_INPUT\<close> are two distinct
  constants of the integration's \<^verbatim>\<open>const\<close> module.
\<close>

datatype call_type = CALL_TYPE_REGISTER_HOLDING | CALL_TYPE_REGISTER_INPUT

text \<open>
  The hub calls of the methods modelled here, with their arguments: unit (slave),
  address, and count or value.
\<close>

datatype request =
    Read_coils "int option" int int
  | Write_coil "int option" int bool
  | Read_holding_registers "int option" int int
  | Read_input_registers "int option" int int

text \<open>
  What a hub call does: it raises \<^verbatim>\<open>ConnectionException\<close>, or returns an object that
  is a \<^verbatim>\<open>ModbusException\<close> or an \<^verbatim>\<open>ExceptionResponse\<close>, or returns a result with
  \<^verbatim>\<open>.bits\<close> (Python booleans are integers 0 and 1) or with \<^verbatim>\<open>.registers\<close> (16-bit
  words), or the result of a write.
\<close>

datatype response =
    Raise_ConnectionException
  | Return_ModbusException
  | Return_ExceptionResponse
  | Return_bits "int list"
  | Return_registers "16 word list"
  | Return_written

text \<open>
  The hub with the log of the calls made on it, and the logger of the module
  (\<^verbatim>\<open>_LOGGER.error\<close>). A log entry keeps the arguments of the message: hub name,
  slave, register and value.
\<close>

datatype log_entry = Unexpected_response string "int option" int int

record world =
  hub_name :: string
  respond :: "request \<Rightarrow> response"
  calls :: "request list"
  logged :: "log_entry list"

definition call :: "world \<Rightarrow> request \<Rightarrow> response \<times> world" where
  "call w req = (respond w req, w\<lparr>calls := calls w @ [req]\<rparr>)"

definition log_error :: "world \<Rightarrow> log_entry \<Rightarrow> world" where
  "log_error w e = w\<lparr>logged := logged w @ [e]\<rparr>"

section \<open>Switches (switch.py)\<close>

subsection \<open>ModbusBaseSwitch\<close>

record base_switch =
  name :: string
  slave :: "int option"
  is_on :: "bool option"
  available :: bool

subsection \<open>ModbusCoilSwitch\<close>

record coil_switch = base_switch +
  coil :: int

definition read_coil :: "world \<Rightarrow> coil_switch \<Rightarrow> int \<Rightarrow> world \<times> coil_switch \<times> (exn + bool)" where
  "read_coil w s c =
     (let (result, w1) = call w (Read_coils (slave s) c 1) in
      case result of
        Raise_ConnectionException \<Rightarrow> (w1, s\<lparr>available := False\<rparr>, Inr False)
      | Return_ModbusException \<Rightarrow> (w1, s\<lparr>available := False\<rparr>, Inr False)
      | Return_ExceptionResponse \<Rightarrow> (w1, s\<lparr>available := False\<rparr>, Inr False)
      | Return_bits bits \<Rightarrow>
          (case bits of
             [] \<Rightarrow> (w1, s\<lparr>available := True\<rparr>, Inl IndexError)
           | b # _ \<Rightarrow> (w1, s\<lparr>available := True\<rparr>, Inr (b AND 1 \<noteq> 0)))
      | _ \<Rightarrow> (w1, s\<lparr>available := True\<rparr>, Inl AttributeError))"

definition write_coil :: "world \<Rightarrow> coil_switch \<Rightarrow> int \<Rightarrow> bool \<Rightarrow> world \<times> coil_switch" where
  "write_coil w s c v =
     (let (result, w1) = call w (Write_coil (slave s) c v) in
      case result of
        Raise_ConnectionException \<Rightarrow> (w1, s\<lparr>available := False\<rparr>)
      | _ \<Rightarrow> (w1, s\<lparr>available := True\<rparr>))"

definition coil_turn_on :: "world \<Rightarrow> coil_switch \<Rightarrow> world \<times> coil_switch" where
  "coil_turn_on w s =
     (let (w1, s1) = write_coil w s (coil s) True in (w1, s1\<lparr>is_on := Some True\<rparr>))"

definition coil_turn_off :: "world \<Rightarrow> coil_switch \<Rightarrow> world \<times> coil_switch" where
  "coil_turn_off w s =
     (let (w1, s1) = write_coil w s (coil s) False in (w1, s1\<lparr>is_on := Some False\<rparr>))"

definition coil_update :: "world \<Rightarrow> coil_switch \<Rightarrow> world \<times> coil_switch \<times> (exn + unit)" where
  "coil_update w s =
     (case read_coil w s (coil s) of
        (w1, s1, Inl e) \<Rightarrow> (w1, s1, Inl e)
      | (w1, s1, Inr b) \<Rightarrow> (w1, s1\<lparr>is_on := Some b\<rparr>, Inr ()))"

subsection \<open>Configuration tokens\<close>

text \<open>
  The regular expression \<^verbatim>\<open>^(%[A-Z]+)(\d+)\.(\d+)$\<close> under \<^verbatim>\<open>re.match\<close>. The classes
  of letters and digits are disjoint and every group is followed by a character outside
  its class, so the greedy match never backtracks. \<^verbatim>\<open>$\<close> also matches before one
  final newline. Characters are bytes here, so \<^verbatim>\<open>\d\<close> is the ASCII digits.
\<close>

definition is_upper :: "char \<Rightarrow> bool" where
  "is_upper c \<longleftrightarrow> 65 \<le> (of_char c :: nat) \<and> (of_char c :: nat) \<le> 90"

definition is_digit :: "char \<Rightarrow> bool" where
  "is_digit c \<longleftrightarrow> 48 \<le> (of_char c :: nat) \<and> (of_char c :: nat) \<le> 57"

definition re_match :: "string \<Rightarrow> (string \<times> string \<times> string) option" where
  "re_match s =
     (case s of
        [] \<Rightarrow> None
      | c # r0 \<Rightarrow>
          if c \<noteq> CHR ''%'' then None
          else let letters = takeWhile is_upper r0; r1 = dropWhile is_upper r0;
                   d1 = takeWhile is_digit r1; r2 = dropWhile is_digit r1
               in if letters = [] \<or> d1 = [] then None
                  else (case r2 of
                          [] \<Rightarrow> None
                        | p # r3 \<Rightarrow>
                            if p \<noteq> CHR ''.'' then None
                            else let d2 = takeWhile is_digit r3; r4 = dropWhile is_digit r3
                                 in if d2 = [] then None
                                    else if r4 = [] \<or> r4 = [CHR 0x0A]
                                         then Some (c # letters, d1, d2)
                                         else None))"

text \<open>\<^verbatim>\<open>int(group)\<close> on a string of decimal digits.\<close>

definition digit_val :: "char \<Rightarrow> int" where
  "digit_val c = int (of_char c) - 48"

definition int_of_digits :: "string \<Rightarrow> int" where
  "int_of_digits ds = foldl (\<lambda>n c. 10 * n + digit_val c) 0 ds"

subsection \<open>ModbusRegisterSwitch\<close>

record register_config =
  CONF_NAME :: string
  CONF_SLAVE :: "int option"
  CONF_REGISTER :: string
  CONF_STATE :: string
  CONF_VERIFY_STATE :: bool
  CONF_VERIFY_REGISTER :: "int option"
  CONF_REGISTER_TYPE :: call_type

record register_switch = base_switch +
  register :: int
  bit_position :: int
  register_read_type :: string
  register_read :: int
  bit_read :: int
  command_on :: "int list"
  command_off :: "int list"
  state_on :: "int list"
  state_off :: "int list"
  verify_state :: bool
  verify_register :: int
  register_type :: call_type

definition init :: "register_config \<Rightarrow> exn + register_switch" where
  "init config =
     (case re_match (CONF_REGISTER config) of
        None \<Rightarrow> Inl ValueError
      | Some (g1, g2, g3) \<Rightarrow>
          let reg = int_of_digits g2 - 1;
              bitpos = int_of_digits g3 + 1
          in (case re_match (CONF_STATE config) of
                None \<Rightarrow> Inl ValueError
              | Some (h1, h2, h3) \<Rightarrow>
                  let rread0 = int_of_digits h2;
                      rread = (if h1 = ''%QX'' then rread0 + 200 else rread0);
                      bread = int_of_digits h3 + 1
                  in Inr \<lparr> name = CONF_NAME config,
                           slave = CONF_SLAVE config,
                           is_on = None,
                           available = True,
                           register = reg,
                           bit_position = bitpos,
                           register_read_type = h1,
                           register_read = rread,
                           bit_read = bread,
                           command_on = [bitpos],
                           command_off = [bitpos],
                           state_on = [rread, bread, bread],
                           state_off = [rread, bread, 0],
                           verify_state = CONF_VERIFY_STATE config,
                           verify_register =
                             (case CONF_VERIFY_REGISTER config of None \<Rightarrow> reg | Some v \<Rightarrow> v),
                           register_type = CONF_REGISTER_TYPE config \<rparr>))"

definition zzz_read_register ::
  "world \<Rightarrow> register_switch \<Rightarrow> call_type \<Rightarrow> int \<Rightarrow> world \<times> register_switch \<times> (exn + int option)" where
  "zzz_read_register w s rtype reg =
     (let (result, w1) =
            (if rtype = CALL_TYPE_REGISTER_INPUT
             then call w (Read_input_registers (slave s) reg 1)
             else call w (Read_holding_registers (slave s) reg 1))
      in case result of
           Raise_ConnectionException \<Rightarrow> (w1, s\<lparr>available := False\<rparr>, Inr None)
         | Return_ModbusException \<Rightarrow> (w1, s\<lparr>available := False\<rparr>, Inr None)
         | Return_ExceptionResponse \<Rightarrow> (w1, s\<lparr>available := False\<rparr>, Inr None)
         | Return_registers regs \<Rightarrow>
             (case regs of
                [] \<Rightarrow> (w1, s\<lparr>available := True\<rparr>, Inl IndexError)
              | r # _ \<Rightarrow> (w1, s\<lparr>available := True\<rparr>, Inr (Some (uint r))))
         | _ \<Rightarrow> (w1, s\<lparr>available := True\<rparr>, Inl AttributeError))"

definition read_register ::
  "world \<Rightarrow> register_switch \<Rightarrow> world \<times> register_switch \<times> (exn + int option)" where
  "read_register w s =
     (let (result, w1) =
            (if register_type s = CALL_TYPE_REGISTER_INPUT
             then call w (Read_input_registers (slave s) (verify_register s) 1)
             else call w (Read_holding_registers (slave s) (verify_register s) 1))
      in case result of
           Raise_ConnectionException \<Rightarrow> (w1, s\<lparr>available := False\<rparr>, Inr None)
         | Return_ModbusException \<Rightarrow> (w1, s\<lparr>available := False\<rparr>, Inr None)
         | Return_ExceptionResponse \<Rightarrow> (w1, s\<lparr>available := False\<rparr>, Inr None)
         | Return_registers regs \<Rightarrow>
             (case regs of
                [] \<Rightarrow> (w1, s\<lparr>available := True\<rparr>, Inl IndexError)
              | r # _ \<Rightarrow> (w1, s\<lparr>available := True\<rparr>, Inr (Some (uint r))))
         | _ \<Rightarrow> (w1, s\<lparr>available := True\<rparr>, Inl AttributeError))"

text \<open>
  \<^verbatim>\<open>update\<close> of the register switch. The three comparisons are made on the result of
  \<^verbatim>\<open>np.bitwise_and\<close>, which is never \<^verbatim>\<open>None\<close> once it has returned.
\<close>

definition register_update ::
  "world \<Rightarrow> register_switch \<Rightarrow> world \<times> register_switch \<times> (exn + unit)" where
  "register_update w s =
     (if \<not> verify_state s then (w, s, Inr ())
      else case zzz_read_register w s CALL_TYPE_REGISTER_HOLDING (state_on s ! 0) of
             (w1, s1, Inl e) \<Rightarrow> (w1, s1, Inl e)
           | (w1, s1, Inr register_value) \<Rightarrow>
               (case bitwise_and register_value (int_pow2 (state_on s1 ! 1 - 1)) of
                  Inl e \<Rightarrow> (w1, s1, Inl e)
                | Inr v \<Rightarrow>
                    if v = int_pow2 (state_on s1 ! 2 - 1)
                    then (w1, s1\<lparr>is_on := Some True\<rparr>, Inr ())
                    else if v = int_pow2 (state_off s1 ! 2 - 1)
                    then (w1, s1\<lparr>is_on := Some False\<rparr>, Inr ())
                    else (log_error w1
                            (Unexpected_response (hub_name w1) (slave s1) (register s1) v),
                          s1, Inr ())))"

section \<open>Python built-ins used by the sensor\<close>

text \<open>
  A Python float is an IEEE 754 double, kept here as its 64-bit pattern. Floating-point
  arithmetic and formatting are not modelled: the operations on floats are parameters
  of the model (record \<open>python\<close> below), and every theorem about the sensor holds
  for all values of these parameters.
\<close>

datatype pyfloat = Double "64 word"

text \<open>A configured \<^verbatim>\<open>scale\<close> or \<^verbatim>\<open>offset\<close>: the schema's \<^verbatim>\<open>number\<close> returns an int or a float.\<close>

datatype number = Int_number int | Float_number pyfloat

text \<open>The scalars \<^verbatim>\<open>struct.unpack\<close> returns: integers, floats, booleans and bytes.\<close>

datatype pyval = Number number | Bool bool | Bytes "8 word list"

text \<open>
  The library functions whose semantics lie outside this repository:
  \<^verbatim>\<open>struct.unpack(structure, byte_string)\<close>, \<^verbatim>\<open>bytes.decode()\<close>, the conversion of an
  int to a float (\<^verbatim>\<open>OverflowError\<close> when it is too large), float multiplication and
  addition, \<^verbatim>\<open>f"{x:.{p}f}"\<close> of a float, and \<^verbatim>\<open>str\<close> of a float and of a bytes object.
\<close>

record python =
  unpack :: "string \<Rightarrow> 8 word list \<Rightarrow> exn + pyval list"
  decode :: "8 word list \<Rightarrow> exn + string"
  float_of_int :: "int \<Rightarrow> exn + pyfloat"
  float_mul :: "pyfloat \<Rightarrow> pyfloat \<Rightarrow> pyfloat"
  float_add :: "pyfloat \<Rightarrow> pyfloat \<Rightarrow> pyfloat"
  format_fixed :: "pyfloat \<Rightarrow> nat \<Rightarrow> string"
  str_float :: "pyfloat \<Rightarrow> string"
  str_bytes :: "8 word list \<Rightarrow> string"

text \<open>\<^verbatim>\<open>x.to_bytes(2, byteorder="big")\<close> of a 16-bit register.\<close>

definition to_bytes :: "16 word \<Rightarrow> 8 word list" where
  "to_bytes x = [ucast (drop_bit 8 x), ucast x]"

text \<open>\<^verbatim>\<open>format(byte, "08b")\<close>: the eight binary digits of a byte, most significant first.\<close>

definition bit_char :: "bool \<Rightarrow> char" where
  "bit_char b = (if b then CHR ''1'' else CHR ''0'')"

definition format_08b :: "8 word \<Rightarrow> string" where
  "format_08b byte =
     [bit_char (bit byte 7), bit_char (bit byte 6), bit_char (bit byte 5),
      bit_char (bit byte 4), bit_char (bit byte 3), bit_char (bit byte 2),
      bit_char (bit byte 1), bit_char (bit byte 0)]"

text \<open>
  Subscription \<^verbatim>\<open>xs[i]\<close> of a sequence of length \<open>len\<close>: indices from \<open>0\<close> to
  \<open>len - 1\<close> read from the front, indices from \<open>- len\<close> to \<open>- 1\<close> read from the
  back, and every other index raises \<^verbatim>\<open>IndexError\<close>.
\<close>

definition py_index :: "'a list \<Rightarrow> int \<Rightarrow> exn + 'a" where
  "py_index xs i =
     (if 0 \<le> i \<and> i < int (length xs) then Inr (xs ! nat i)
      else if - int (length xs) \<le> i \<and> i < 0 then Inr (xs ! nat (int (length xs) + i))
      else Inl IndexError)"

text \<open>\<^verbatim>\<open>str(n)\<close> of an int: its decimal digits, with a minus sign when negative.\<close>

fun str_nat :: "nat \<Rightarrow> string" where
  "str_nat n =
     (if n < 10 then [''0123456789'' ! n]
      else str_nat (n div 10) @ [''0123456789'' ! (n mod 10)])"

declare str_nat.simps [simp del]

definition str_int :: "int \<Rightarrow> string" where
  "str_int n = (if n < 0 then CHR ''-'' # str_nat (nat (- n)) else str_nat (nat n))"

text \<open>\<^verbatim>\<open>sep.join(xs)\<close>.\<close>

fun join :: "string \<Rightarrow> string list \<Rightarrow> string" where
  "join sep [] = []"
| "join sep [x] = x"
| "join sep (x # y # ys) = x @ sep @ join sep (y # ys)"

text \<open>
  \<^verbatim>\<open>float(n)\<close> of an int, as the integer it denotes: \<open>n\<close> itself when it has at most 53
  significant bits, otherwise \<open>n\<close> rounded to 53 significant bits, ties to even;
  \<^verbatim>\<open>OverflowError\<close> when the rounded magnitude reaches \<open>2^1024\<close>.
\<close>

fun bit_length :: "nat \<Rightarrow> nat" where
  "bit_length n = (if n = 0 then 0 else Suc (bit_length (n div 2)))"

declare bit_length.simps [simp del]

definition float_int :: "int \<Rightarrow> exn + int" where
  "float_int n =
     (let a = nat \<bar>n\<bar>; k = bit_length a
      in if k \<le> 53 then Inr n
         else let sh = k - 53; q = a div 2 ^ sh; r = a mod 2 ^ sh; half = 2 ^ (sh - 1);
                  q' = (if half < r \<or> (r = half \<and> odd q) then q + 1 else q);
                  m = q' * 2 ^ sh
              in if 2 ^ 1024 \<le> m then Inl OverflowError else Inr (sgn n * int m))"

text \<open>
  \<^verbatim>\<open>f"{float(n):.{p}f}"\<close> of an int: a float that is an integer prints as its decimal
  digits, followed by a point and \<open>p\<close> zeros when \<open>p > 0\<close>.
\<close>

definition fixed_of_int :: "int \<Rightarrow> nat \<Rightarrow> exn + string" where
  "fixed_of_int n p =
     (case float_int n of
        Inl e \<Rightarrow> Inl e
      | Inr m \<Rightarrow> Inr (str_int m @ (if p = 0 then [] else CHR ''.'' # replicate p CHR ''0'')))"

text \<open>
  \<^verbatim>\<open>isinstance(val, (float, int))\<close>: a Python bool is an int (0 or 1) and passes the
  test; bytes do not.
\<close>

definition as_number :: "pyval \<Rightarrow> number option" where
  "as_number v =
     (case v of
        Number x \<Rightarrow> Some x
      | Bool b \<Rightarrow> Some (Int_number (if b then 1 else 0))
      | Bytes _ \<Rightarrow> None)"

text \<open>\<^verbatim>\<open>a * b\<close> and \<^verbatim>\<open>a + b\<close> on ints and floats: an int operand of a float is converted.\<close>

definition to_float :: "python \<Rightarrow> number \<Rightarrow> exn + pyfloat" where
  "to_float py a = (case a of Int_number n \<Rightarrow> float_of_int py n | Float_number x \<Rightarrow> Inr x)"

definition py_arith ::
  "python \<Rightarrow> (int \<Rightarrow> int \<Rightarrow> int) \<Rightarrow> (pyfloat \<Rightarrow> pyfloat \<Rightarrow> pyfloat) \<Rightarrow> number \<Rightarrow> number
     \<Rightarrow> exn + number" where
  "py_arith py iop fop a b =
     (case (a, b) of
        (Int_number m, Int_number n) \<Rightarrow> Inr (Int_number (iop m n))
      | _ \<Rightarrow>
          (case to_float py a of
             Inl e \<Rightarrow> Inl e
           | Inr x \<Rightarrow>
               (case to_float py b of
                  Inl e \<Rightarrow> Inl e
                | Inr y \<Rightarrow> Inr (Float_number (fop x y)))))"

definition py_mul :: "python \<Rightarrow> number \<Rightarrow> number \<Rightarrow> exn + number" where
  "py_mul py a b = py_arith py (\<lambda>m n. m * n) (float_mul py) a b"

definition py_add :: "python \<Rightarrow> number \<Rightarrow> number \<Rightarrow> exn + number" where
  "py_add py a b = py_arith py (\<lambda>m n. m + n) (float_add py) a b"

text \<open>\<^verbatim>\<open>str(v)\<close> of an unpacked scalar.\<close>

definition py_str :: "python \<Rightarrow> pyval \<Rightarrow> string" where
  "py_str py v =
     (case v of
        Number (Int_number n) \<Rightarrow> str_int n
      | Number (Float_number x) \<Rightarrow> str_float py x
      | Bool b \<Rightarrow> (if b then ''True'' else ''False'')
      | Bytes bs \<Rightarrow> str_bytes py bs)"

section \<open>The register sensor (sensor.py)\<close>

datatype data_type =
  DATA_TYPE_INT | DATA_TYPE_UINT | DATA_TYPE_FLOAT | DATA_TYPE_STRING | DATA_TYPE_CUSTOM

record sensor =
  sensor_name :: string
  sensor_slave :: "int option"
  sensor_register :: int
  sensor_register_type :: call_type
  unit_of_measurement :: "string option"
  count :: int
  reverse_order :: bool
  scale :: number
  offset :: number
  precision :: nat
  struct_format :: string
  sensor_data_type :: data_type
  device_class :: "string option"
  sensor_value :: "string option"
  sensor_available :: bool
  sensor_bit :: "int option"

text \<open>
  Lines 260 to 295 of \<^verbatim>\<open>update\<close>: the string assigned to \<^verbatim>\<open>_value\<close> from the byte
  string of the registers, or the exception raised on the way.
\<close>

definition decode_value :: "python \<Rightarrow> sensor \<Rightarrow> 8 word list \<Rightarrow> exn + string" where
  "decode_value py s byte_string =
     (if sensor_bit s \<noteq> None \<and> sensor_bit s \<noteq> Some 0 then
        let bytes_as_bits = concat (map format_08b byte_string);
            position = int (length bytes_as_bits) - the (sensor_bit s)
        in (case py_index bytes_as_bits position of
              Inl e \<Rightarrow> Inl e
            | Inr val \<Rightarrow> Inr [val])
      else if sensor_data_type s = DATA_TYPE_STRING then decode py byte_string
      else
        (case unpack py (struct_format s) byte_string of
           Inl e \<Rightarrow> Inl e
         | Inr val \<Rightarrow>
             if length val > 1 then Inr (join '','' (map (py_str py) val))
             else
               (case val of
                  [] \<Rightarrow> Inl IndexError
                | v # _ \<Rightarrow>
                    (case as_number v of
                       Some x \<Rightarrow>
                         (case py_mul py (scale s) x of
                            Inl e \<Rightarrow> Inl e
                          | Inr m \<Rightarrow>
                              (case py_add py m (offset s) of
                                 Inl e \<Rightarrow> Inl e
                               | Inr (Int_number n) \<Rightarrow>
                                   if precision s = 0 then Inr (str_int n)
                                   else fixed_of_int n (precision s)
                               | Inr (Float_number f) \<Rightarrow>
                                   Inr (format_fixed py f (precision s))))
                     | None \<Rightarrow> Inr (py_str py v)))))"

definition sensor_update :: "python \<Rightarrow> world \<Rightarrow> sensor \<Rightarrow> world \<times> sensor \<times> (exn + unit)" where
  "sensor_update py w s =
     (let (result, w1) =
            (if sensor_register_type s = CALL_TYPE_REGISTER_INPUT
             then call w (Read_input_registers (sensor_slave s) (sensor_register s) (count s))
             else call w (Read_holding_registers (sensor_slave s) (sensor_register s) (count s)))
      in case result of
           Raise_ConnectionException \<Rightarrow> (w1, s\<lparr>sensor_available := False\<rparr>, Inr ())
         | Return_ModbusException \<Rightarrow> (w1, s\<lparr>sensor_available := False\<rparr>, Inr ())
         | Return_ExceptionResponse \<Rightarrow> (w1, s\<lparr>sensor_available := False\<rparr>, Inr ())
         | Return_registers regs \<Rightarrow>
             (let registers = (if reverse_order s then rev regs else regs);
                  byte_string = concat (map to_bytes registers)
              in case decode_value py s byte_string of
                   Inl e \<Rightarrow> (w1, s, Inl e)
                 | Inr v \<Rightarrow> (w1, s\<lparr>sensor_value := Some v, sensor_available := True\<rparr>, Inr ()))
         | _ \<Rightarrow> (w1, s, Inl AttributeError))"

text \<open>The hub call of the sensor's \<^verbatim>\<open>update\<close>, and the byte string it packs.\<close>

definition sensor_request :: "sensor \<Rightarrow> request" where
  "sensor_request s =
     (if sensor_register_type s = CALL_TYPE_REGISTER_INPUT
      then Read_input_registers (sensor_slave s) (sensor_register s) (count s)
      else Read_holding_registers (sensor_slave s) (sensor_register s) (count s))"

definition byte_string_of :: "sensor \<Rightarrow> 16 word list \<Rightarrow> 8 word list" where
  "byte_string_of s regs = concat (map to_bytes (if reverse_order s then rev regs else regs))"

section \<open>Example configurations\<close>

definition example_config :: register_config where
  "example_config = \<lparr>CONF_NAME = ''pump'', CONF_SLAVE = Some 1, CONF_REGISTER = ''%MX401.5'',
     CONF_STATE = ''%QX4.7'', CONF_VERIFY_STATE = True, CONF_VERIFY_REGISTER = None,
     CONF_REGISTER_TYPE = CALL_TYPE_REGISTER_HOLDING\<rparr>"

text \<open>The same configuration with status bit 63, and the switch constructed from it.\<close>

definition example_config_bit63 :: register_config where
  "example_config_bit63 = example_config\<lparr>CONF_STATE := ''%QX4.63''\<rparr>"

definition example_switch_bit63 :: register_switch where
  "example_switch_bit63 =
     \<lparr>name = ''pump'', slave = Some 1, is_on = None, available = True, register = 400,
      bit_position = 6, register_read_type = ''%QX'', register_read = 204, bit_read = 64,
      command_on = [6], command_off = [6], state_on = [204, 64, 64],
      state_off = [204, 64, 0], verify_state = True, verify_register = 400,
      register_type = CALL_TYPE_REGISTER_HOLDING\<rparr>"

definition hub_returning :: "response \<Rightarrow> world" where
  "hub_returning r = \<lparr>hub_name = ''hub'', respond = (\<lambda>_. r), calls = [], logged = []\<rparr>"

definition example_coil_switch :: coil_switch where
  "example_coil_switch = \<lparr>name = ''valve'', slave = Some 1, is_on = None, available = True, coil = 3\<rparr>"

text \<open>
  A stand-in for the Python library in the examples: \<^verbatim>\<open>struct.unpack\<close> on the formats
  \<^verbatim>\<open>>H\<close> and \<^verbatim>\<open>>HH\<close> (unsigned big-endian 16-bit fields) and on \<^verbatim>\<open>>d\<close> (the double
  with the given bits); the float operations are placeholders.
\<close>

definition be_uint :: "8 word list \<Rightarrow> int" where
  "be_uint bs = foldl (\<lambda>n b. 256 * n + uint b) 0 bs"

definition example_unpack :: "string \<Rightarrow> 8 word list \<Rightarrow> exn + pyval list" where
  "example_unpack fmt bs =
     (if fmt = ''>H'' \<and> length bs = 2 then Inr [Number (Int_number (be_uint bs))]
      else if fmt = ''>HH'' \<and> length bs = 4
      then Inr [Number (Int_number (be_uint (take 2 bs))),
                Number (Int_number (be_uint (drop 2 bs)))]
      else if fmt = ''>d'' \<and> length bs = 8
      then Inr [Number (Float_number (Double (word_of_int (be_uint bs))))]
      else Inl StructError)"

definition example_python :: python where
  "example_python =
     \<lparr>unpack = example_unpack,
      decode = (\<lambda>_. Inl UnicodeDecodeError),
      float_of_int = (\<lambda>n. Inr (Double (word_of_int n))),
      float_mul = (\<lambda>x y. y),
      float_add = (\<lambda>x y. x),
      format_fixed = (\<lambda>x p. ''float.'' @ replicate p CHR ''0''),
      str_float = (\<lambda>_. ''float''),
      str_bytes = (\<lambda>_. ''bytes'')\<rparr>"

definition example_sensor :: sensor where
  "example_sensor =
     \<lparr>sensor_name = ''level'', sensor_slave = Some 1, sensor_register = 10,
      sensor_register_type = CALL_TYPE_REGISTER_HOLDING, unit_of_measurement = None,
      count = 1, reverse_order = False, scale = Int_number 2, offset = Int_number 5,
      precision = 0, struct_format = ''>H'', sensor_data_type = DATA_TYPE_UINT,
      device_class = None, sensor_value = None, sensor_available = True,
      sensor_bit = None\<rparr>"

section \<open>Properties of the switches\<close>

lemma span_class:
  assumes "\<forall>x\<in>set xs. P x" and "ys = [] \<or> \<not> P (hd ys)"
  shows "takeWhile P (xs @ ys) = xs" and "dropWhile P (xs @ ys) = ys"
  using assms by (induction xs) (auto simp: takeWhile_eq_Nil_iff dropWhile_eq_self_iff)

lemma not_upper_digit: "is_digit c \<Longrightarrow> \<not> is_upper c"
  by (simp add: is_digit_def is_upper_def)

lemma dot_class: "\<not> is_digit CHR ''.''" "\<not> is_upper CHR ''.''"
  by (simp_all add: is_digit_def is_upper_def)

lemma re_match_well_formed:
  assumes "ls \<noteq> []" "\<forall>c\<in>set ls. is_upper c"
    and "d1 \<noteq> []" "\<forall>c\<in>set d1. is_digit c"
    and "d2 \<noteq> []" "\<forall>c\<in>set d2. is_digit c"
  shows "re_match (CHR ''%'' # ls @ d1 @ CHR ''.'' # d2) = Some (CHR ''%'' # ls, d1, d2)"
proof -
  have hd1: "\<not> is_upper (hd (d1 @ CHR ''.'' # d2))"
    using assms(3,4) by (cases d1) (auto simp: not_upper_digit)
  have a: "takeWhile is_upper (ls @ d1 @ CHR ''.'' # d2) = ls"
    and b: "dropWhile is_upper (ls @ d1 @ CHR ''.'' # d2) = d1 @ CHR ''.'' # d2"
    using span_class [of ls is_upper "d1 @ CHR ''.'' # d2"] assms(2) hd1 by auto
  have c: "takeWhile is_digit (d1 @ CHR ''.'' # d2) = d1"
    and d: "dropWhile is_digit (d1 @ CHR ''.'' # d2) = CHR ''.'' # d2"
    using span_class [of d1 is_digit "CHR ''.'' # d2"] assms(4) by (auto simp: dot_class)
  have e: "takeWhile is_digit d2 = d2" and f: "dropWhile is_digit d2 = []"
    using span_class [of d2 is_digit "[]"] assms(6) by auto
  show ?thesis
    using assms(1,3,5) by (simp add: re_match_def a b c d e f)
qed

text \<open>
  Claim C5. For a command token and a state token of the form
  \<^verbatim>\<open>%<LETTERS><digits>.<digits>\<close>, construction succeeds and stores: the command
  register as the first digit group of the command token minus 1, the command bit
  position as its second digit group plus 1, the status register as the first digit
  group of the state token, plus 200 exactly when the state token's area is
  \<^verbatim>\<open>%QX\<close>, and the status bit position as its second digit group plus 1.
\<close>

theorem init_well_formed:
  assumes "ls \<noteq> []" "\<forall>c\<in>set ls. is_upper c"
    and "d1 \<noteq> []" "\<forall>c\<in>set d1. is_digit c"
    and "d2 \<noteq> []" "\<forall>c\<in>set d2. is_digit c"
    and "ms \<noteq> []" "\<forall>c\<in>set ms. is_upper c"
    and "e1 \<noteq> []" "\<forall>c\<in>set e1. is_digit c"
    and "e2 \<noteq> []" "\<forall>c\<in>set e2. is_digit c"
    and "CONF_REGISTER config = CHR ''%'' # ls @ d1 @ CHR ''.'' # d2"
    and "CONF_STATE config = CHR ''%'' # ms @ e1 @ CHR ''.'' # e2"
  shows "\<exists>s. init config = Inr s
           \<and> register s = int_of_digits d1 - 1
           \<and> bit_position s = int_of_digits d2 + 1
           \<and> register_read s = int_of_digits e1 + (if CHR ''%'' # ms = ''%QX'' then 200 else 0)
           \<and> bit_read s = int_of_digits e2 + 1"
proof -
  have c: "re_match (CONF_REGISTER config) = Some (CHR ''%'' # ls, d1, d2)"
    using assms(1-6,13) by (simp add: re_match_well_formed)
  have s: "re_match (CONF_STATE config) = Some (CHR ''%'' # ms, e1, e2)"
    using assms(7-12,14) by (simp add: re_match_well_formed)
  show ?thesis
    by (simp add: init_def c s Let_def)
qed

theorem init_well_formed_witness: "\<exists>s. init example_config = Inr s \<and> register s = 400 \<and> bit_position s = 6 \<and> register_read s = 204 \<and> bit_read s = 8"
  using init_well_formed [of "''MX''" "''401''" "''5''" "''QX''" "''4''" "''7''" example_config]
  by (simp add: example_config_def is_upper_def is_digit_def int_of_digits_def digit_val_def)

text \<open>
  Claim C8. A coil read that succeeds returns the first returned bit flag masked with
  \<^verbatim>\<open>& 1\<close> and sets availability to true; when the hub raises a connectivity
  exception or returns a protocol exception or exception response, the read returns
  False as a value (nothing is raised) and availability is set to false.
\<close>

theorem read_coil_result:
  "(respond w (Read_coils (slave s) c 1) = Return_bits (b # bs) \<longrightarrow>
      read_coil w s c =
        (w\<lparr>calls := calls w @ [Read_coils (slave s) c 1]\<rparr>, s\<lparr>available := True\<rparr>,
         Inr (b AND 1 \<noteq> 0)))
   \<and> (respond w (Read_coils (slave s) c 1) \<in>
        {Raise_ConnectionException, Return_ModbusException, Return_ExceptionResponse} \<longrightarrow>
      read_coil w s c =
        (w\<lparr>calls := calls w @ [Read_coils (slave s) c 1]\<rparr>, s\<lparr>available := False\<rparr>,
         Inr False))"
  by (auto simp: read_coil_def call_def)

text \<open>
  Claim C9. After \<^verbatim>\<open>turn_on\<close> of the coil switch the cached state is True and after
  \<^verbatim>\<open>turn_off\<close> it is False, whatever the hub did with the write; in particular
  when the write raised a connectivity exception the switch is unavailable and the
  cached state is still overwritten.
\<close>

theorem coil_turn_on_off_state:
  "is_on (snd (coil_turn_on w s)) = Some True
   \<and> is_on (snd (coil_turn_off w s)) = Some False
   \<and> (respond w (Write_coil (slave s) (coil s) True) = Raise_ConnectionException \<longrightarrow>
        snd (coil_turn_on w s) = s\<lparr>available := False, is_on := Some True\<rparr>)
   \<and> (respond w (Write_coil (slave s) (coil s) False) = Raise_ConnectionException \<longrightarrow>
        snd (coil_turn_off w s) = s\<lparr>available := False, is_on := Some False\<rparr>)"
  by (auto simp: coil_turn_on_def coil_turn_off_def write_coil_def call_def split: response.splits)

lemma int_of_digits_acc:
  "\<forall>c\<in>set ds. is_digit c \<Longrightarrow> 0 \<le> n \<Longrightarrow> 0 \<le> foldl (\<lambda>n c. 10 * n + digit_val c) n ds"
  by (induction ds arbitrary: n) (auto simp: is_digit_def digit_val_def)

lemma int_of_digits_nonneg: "\<forall>c\<in>set ds. is_digit c \<Longrightarrow> 0 \<le> int_of_digits ds"
  by (simp add: int_of_digits_def int_of_digits_acc)

lemma re_match_groups:
  assumes "re_match s = Some (g1, g2, g3)"
  shows "\<forall>c\<in>set g2. is_digit c" and "\<forall>c\<in>set g3. is_digit c"
  using assms
  by (auto simp: re_match_def Let_def split: list.splits if_splits dest: set_takeWhileD)

lemma init_fields:
  assumes "init config = Inr s"
  shows "state_on s = [register_read s, bit_read s, bit_read s]"
    and "state_off s = [register_read s, bit_read s, 0]"
    and "slave s = CONF_SLAVE config"
    and "verify_state s = CONF_VERIFY_STATE config"
    and "is_on s = None"
    and "1 \<le> bit_read s"
  using assms
  by (auto simp: init_def Let_def split: option.splits prod.splits
      dest!: re_match_groups(2) int_of_digits_nonneg)

lemma init_state_token:
  assumes "init config = Inr s" and "re_match (CONF_STATE config) = Some (h1, h2, h3)"
  shows "register_read s = int_of_digits h2 + (if h1 = ''%QX'' then 200 else 0)"
    and "bit_read s = int_of_digits h3 + 1"
  using assms by (auto simp: init_def Let_def split: option.splits prod.splits)

lemma and_single_bit: "(x::int) AND 2 ^ n = 0 \<or> x AND 2 ^ n = 2 ^ n"
proof (cases "bit x n")
  case True
  then have "x AND 2 ^ n = 2 ^ n"
    by (intro bit_eqI) (auto simp: bit_and_iff bit_exp_iff)
  then show ?thesis ..
next
  case False
  then show ?thesis
    by (simp add: and_exp_eq_0_iff_not_bit)
qed

lemma zzz_read_register_holding:
  "zzz_read_register w s CALL_TYPE_REGISTER_HOLDING a =
     (let w1 = w\<lparr>calls := calls w @ [Read_holding_registers (slave s) a 1]\<rparr> in
      case respond w (Read_holding_registers (slave s) a 1) of
        Raise_ConnectionException \<Rightarrow> (w1, s\<lparr>available := False\<rparr>, Inr None)
      | Return_ModbusException \<Rightarrow> (w1, s\<lparr>available := False\<rparr>, Inr None)
      | Return_ExceptionResponse \<Rightarrow> (w1, s\<lparr>available := False\<rparr>, Inr None)
      | Return_registers regs \<Rightarrow>
          (case regs of
             [] \<Rightarrow> (w1, s\<lparr>available := True\<rparr>, Inl IndexError)
           | r # _ \<Rightarrow> (w1, s\<lparr>available := True\<rparr>, Inr (Some (uint r))))
      | _ \<Rightarrow> (w1, s\<lparr>available := True\<rparr>, Inl AttributeError))"
  by (simp add: zzz_read_register_def call_def Let_def)

lemma zzz_read_register_calls:
  "calls (fst (zzz_read_register w s CALL_TYPE_REGISTER_HOLDING a)) =
     calls w @ [Read_holding_registers (slave s) a 1]"
  by (simp add: zzz_read_register_holding Let_def split: response.splits list.splits)

lemma register_update_calls:
  "verify_state s \<Longrightarrow>
   calls (fst (register_update w s)) =
     calls w @ [Read_holding_registers (slave s) (state_on s ! 0) 1]"
  using zzz_read_register_calls [of w s "state_on s ! 0"]
  by (auto simp: register_update_def log_error_def bitwise_and_def
      split: prod.splits sum.splits option.splits if_splits)

text \<open>
  Claim C10. With verification enabled, \<^verbatim>\<open>update\<close> of a constructed register switch
  makes exactly one hub call: a holding-register read of one register at the address
  parsed from the state token (plus 200 for area \<^verbatim>\<open>%QX\<close>). This holds for every
  configured register kind and every verify-register override: neither is used.
\<close>

theorem register_update_verification_read:
  assumes "init (config\<lparr>CONF_REGISTER_TYPE := kind, CONF_VERIFY_REGISTER := override\<rparr>) = Inr s0"
    and "CONF_VERIFY_STATE config"
    and "re_match (CONF_STATE config) = Some (h1, h2, h3)"
  shows "calls (fst (register_update w (s0\<lparr>is_on := cached, available := av\<rparr>))) =
           calls w @ [Read_holding_registers (CONF_SLAVE config)
                        (int_of_digits h2 + (if h1 = ''%QX'' then 200 else 0)) 1]"
proof -
  let ?c = "config\<lparr>CONF_REGISTER_TYPE := kind, CONF_VERIFY_REGISTER := override\<rparr>"
  let ?s = "s0\<lparr>is_on := cached, available := av\<rparr>"
  have v: "verify_state ?s"
    using init_fields(4) [OF assms(1)] assms(2) by simp
  have a: "state_on ?s ! 0 = int_of_digits h2 + (if h1 = ''%QX'' then 200 else 0)"
    using init_fields(1) [OF assms(1)] init_state_token(1) [OF assms(1), of h1 h2 h3] assms(3)
    by simp
  have sl: "slave ?s = CONF_SLAVE config"
    using init_fields(3) [OF assms(1)] by simp
  show ?thesis
    using register_update_calls [OF v, of w] a sl by simp
qed

lemma int64_range_register: "int64_range (uint (r :: 16 word))"
proof -
  have lo: "- (2 ^ 63) \<le> uint r"
    by (rule order_trans [of _ 0]) simp_all
  have "uint r < 2 ^ 16"
    using uint_bounded [of r] by simp
  also have "(2::int) ^ 16 < 2 ^ 63"
    by simp
  finally show ?thesis
    using lo unfolding int64_range_def by (intro conjI)
qed

lemma int64_range_mask: "b \<le> 63 \<Longrightarrow> int64_range (int_pow2 (b - 1))"
proof -
  assume b: "b \<le> 63"
  have "(2::int) ^ nat (b - 1) < 2 ^ 63"
    using b by (intro power_strict_increasing) simp_all
  moreover have "(0::int) \<le> 2 ^ nat (b - 1)"
    by simp
  ultimately have "int64_range (2 ^ nat (b - 1))"
    unfolding int64_range_def by linarith
  moreover have "int64_range 0"
    by (simp add: int64_range_def)
  ultimately show ?thesis
    by (simp add: int_pow2_def)
qed

lemma register_update_value:
  assumes "verify_state s" and "state_on s = [a, b, b]" and "state_off s = [a, b, 0]"
    and "respond w (Read_holding_registers (slave s) a 1) = Return_registers (r # rs)"
    and "b \<le> 63"
  shows "register_update w s =
     (let w1 = w\<lparr>calls := calls w @ [Read_holding_registers (slave s) a 1]\<rparr>;
          s1 = s\<lparr>available := True\<rparr>;
          v = uint r AND int_pow2 (b - 1)
      in if v = int_pow2 (b - 1) then (w1, s1\<lparr>is_on := Some True\<rparr>, Inr ())
         else if v = 0 then (w1, s1\<lparr>is_on := Some False\<rparr>, Inr ())
         else (log_error w1 (Unexpected_response (hub_name w) (slave s) (register s) v),
               s1, Inr ()))"
proof -
  have m: "bitwise_and (Some (uint r)) (int_pow2 (b - 1)) = Inr (uint r AND int_pow2 (b - 1))"
    using int64_range_mask [OF assms(5)] by (simp add: bitwise_and_def int64_range_register)
  have z: "int_pow2 (- 1) = 0"
    by (simp add: int_pow2_def)
  show ?thesis
    using assms(1-4)
    by (simp add: register_update_def zzz_read_register_holding m z Let_def log_error_def)
qed

lemma register_update_failure:
  assumes "verify_state s"
    and "respond w (Read_holding_registers (slave s) (state_on s ! 0) 1) \<in>
           {Raise_ConnectionException, Return_ModbusException, Return_ExceptionResponse}"
  shows "register_update w s =
     (w\<lparr>calls := calls w @ [Read_holding_registers (slave s) (state_on s ! 0) 1]\<rparr>,
      s\<lparr>available := False\<rparr>, Inl TypeError)"
  using assms
  by (auto simp: register_update_def zzz_read_register_holding bitwise_and_def Let_def)

text \<open>
  Claim C2, amended. With verification enabled, a status bit position \<open>bit_read\<close> of
  at most 63 and a register value \<open>r\<close> read from the hub, let
  \<open>v = r AND 2^(bit_read - 1)\<close>. If \<open>v\<close> is the ON mask \<open>2^(bit_read - 1)\<close> the cached
  state becomes True; if \<open>v\<close> is the OFF mask 0 it becomes False. The masked value is
  always one of the two masks, so no other outcome occurs and nothing is logged.
\<close>

theorem register_update_masked_outcomes:
  assumes "init config = Inr s0" and "CONF_VERIFY_STATE config"
    and "bit_read s0 \<le> 63"
    and "respond w (Read_holding_registers (slave s0) (register_read s0) 1)
           = Return_registers (r # rs)"
  shows "let s = s0\<lparr>is_on := cached, available := av\<rparr>;
             mask = 2 ^ nat (bit_read s0 - 1);
             v = uint r AND mask;
             w1 = w\<lparr>calls := calls w @ [Read_holding_registers (slave s0) (register_read s0) 1]\<rparr>
         in (v = mask \<longrightarrow>
               register_update w s = (w1, s\<lparr>available := True, is_on := Some True\<rparr>, Inr ()))
          \<and> (v = 0 \<longrightarrow>
               register_update w s = (w1, s\<lparr>available := True, is_on := Some False\<rparr>, Inr ()))
          \<and> (v = mask \<or> v = 0)
          \<and> logged (fst (register_update w s)) = logged w"
proof -
  let ?s = "s0\<lparr>is_on := cached, available := av\<rparr>"
  have p: "int_pow2 (bit_read s0 - 1) = 2 ^ nat (bit_read s0 - 1)"
    using init_fields(6) [OF assms(1)] by (simp add: int_pow2_def)
  have "register_update w ?s = (let w1 = w\<lparr>calls := calls w @ [Read_holding_registers (slave ?s) (register_read s0) 1]\<rparr>;
          s1 = ?s\<lparr>available := True\<rparr>;
          v = uint r AND int_pow2 (bit_read s0 - 1)
      in if v = int_pow2 (bit_read s0 - 1) then (w1, s1\<lparr>is_on := Some True\<rparr>, Inr ())
         else if v = 0 then (w1, s1\<lparr>is_on := Some False\<rparr>, Inr ())
         else (log_error w1 (Unexpected_response (hub_name w) (slave ?s) (register ?s) v),
               s1, Inr ()))"
    apply (rule register_update_value [where rs = rs])
    using init_fields [OF assms(1)] assms(2,3,4) by simp_all
  then show ?thesis
    using and_single_bit [of "uint r" "nat (bit_read s0 - 1)"]
    by (auto simp: p Let_def)
qed

text \<open>
  Claim C2 as stated fails for a status bit position above 63. With the state token
  \<^verbatim>\<open>%QX4.63\<close> the bit position is 64 and the mask is \<open>2^63\<close>. For the register value
  0 the masked value would be 0, the OFF mask, but \<^verbatim>\<open>np.bitwise_and\<close> raises
  \<^verbatim>\<open>OverflowError\<close>: \<^verbatim>\<open>update\<close> does not return and the cached state stays True.
\<close>

theorem register_update_bit63_counterexample:
  "init example_config_bit63 = Inr example_switch_bit63
   \<and> uint (0 :: 16 word) AND 2 ^ nat (bit_read example_switch_bit63 - 1) = 0
   \<and> register_update (hub_returning (Return_registers [0]))
        (example_switch_bit63\<lparr>is_on := Some True\<rparr>) =
       ((hub_returning (Return_registers [0]))\<lparr>calls := [Read_holding_registers (Some 1) 204 1]\<rparr>,
        example_switch_bit63\<lparr>is_on := Some True, available := True\<rparr>, Inl OverflowError)"
proof -
  have i: "init example_config_bit63 = Inr example_switch_bit63"
    by (simp add: init_def example_config_bit63_def example_config_def example_switch_bit63_def
        re_match_def is_upper_def is_digit_def int_of_digits_def digit_val_def)
  have u: "register_update (hub_returning (Return_registers [0]))
        (example_switch_bit63\<lparr>is_on := Some True\<rparr>) =
       ((hub_returning (Return_registers [0]))\<lparr>calls := [Read_holding_registers (Some 1) 204 1]\<rparr>,
        example_switch_bit63\<lparr>is_on := Some True, available := True\<rparr>, Inl OverflowError)"
    by (simp add: register_update_def zzz_read_register_holding hub_returning_def
        example_switch_bit63_def bitwise_and_def int64_range_def int_pow2_def Let_def)
  show ?thesis
    using i u by (simp add: example_switch_bit63_def)
qed

lemma init_example:
  "init (example_config\<lparr>CONF_REGISTER_TYPE := k, CONF_VERIFY_REGISTER := v\<rparr>) =
     Inr \<lparr>name = ''pump'', slave = Some 1, is_on = None, available = True, register = 400,
          bit_position = 6, register_read_type = ''%QX'', register_read = 204, bit_read = 8,
          command_on = [6], command_off = [6], state_on = [204, 8, 8], state_off = [204, 8, 0],
          verify_state = True, verify_register = (case v of None \<Rightarrow> 400 | Some x \<Rightarrow> x),
          register_type = k\<rparr>"
  by (simp add: init_def example_config_def re_match_def is_upper_def is_digit_def int_of_digits_def
      digit_val_def)

theorem read_coil_result_witness:
  "read_coil (hub_returning (Return_bits [1])) example_coil_switch 3 =
     ((hub_returning (Return_bits [1]))\<lparr>calls := [Read_coils (Some 1) 3 1]\<rparr>,
      example_coil_switch\<lparr>available := True\<rparr>, Inr True)
   \<and> read_coil (hub_returning Raise_ConnectionException) example_coil_switch 3 =
     ((hub_returning Raise_ConnectionException)\<lparr>calls := [Read_coils (Some 1) 3 1]\<rparr>,
      example_coil_switch\<lparr>available := False\<rparr>, Inr False)"
  using read_coil_result [of "hub_returning (Return_bits [1])" example_coil_switch 3 1 "[]"]
    read_coil_result [of "hub_returning Raise_ConnectionException" example_coil_switch 3 1 "[]"]
  by (simp add: hub_returning_def example_coil_switch_def)

theorem coil_turn_on_off_state_witness:
  "snd (coil_turn_on (hub_returning Raise_ConnectionException) example_coil_switch) =
     example_coil_switch\<lparr>available := False, is_on := Some True\<rparr>
   \<and> snd (coil_turn_off (hub_returning Raise_ConnectionException) example_coil_switch) =
     example_coil_switch\<lparr>available := False, is_on := Some False\<rparr>"
  using coil_turn_on_off_state [of "hub_returning Raise_ConnectionException" example_coil_switch]
  by (simp add: hub_returning_def)

theorem register_update_verification_read_witness:
  "\<exists>s0. init (example_config\<lparr>CONF_REGISTER_TYPE := CALL_TYPE_REGISTER_INPUT,
                     CONF_VERIFY_REGISTER := Some 7\<rparr>) = Inr s0
      \<and> verify_register s0 = 7 \<and> register_type s0 = CALL_TYPE_REGISTER_INPUT
      \<and> calls (fst (register_update (hub_returning (Return_registers [128]))
                      (s0\<lparr>is_on := Some False, available := False\<rparr>))) =
          [Read_holding_registers (Some 1) 204 1]"
proof -
  let ?c = "example_config\<lparr>CONF_REGISTER_TYPE := CALL_TYPE_REGISTER_INPUT, CONF_VERIFY_REGISTER := Some 7\<rparr>"
  obtain s0 where s0: "init ?c = Inr s0"
    and f: "verify_register s0 = 7" "register_type s0 = CALL_TYPE_REGISTER_INPUT"
    by (simp add: init_example)
  have v: "CONF_VERIFY_STATE example_config" by (simp add: example_config_def)
  have m: "re_match (CONF_STATE example_config) = Some (''%QX'', ''4'', ''7'')"
    by (simp add: example_config_def re_match_def is_upper_def is_digit_def)
  have c: "CONF_SLAVE example_config = Some 1" by (simp add: example_config_def)
  have "calls (fst (register_update (hub_returning (Return_registers [128]))
                      (s0\<lparr>is_on := Some False, available := False\<rparr>))) =
          [Read_holding_registers (Some 1) 204 1]"
    using register_update_verification_read [OF s0 v m,
        where w = "hub_returning (Return_registers [128])" and cached = "Some False"
          and av = False]
    by (simp add: hub_returning_def c int_of_digits_def digit_val_def)
  with s0 f show ?thesis by blast
qed

theorem register_update_masked_outcomes_witness:
  "\<exists>s0. init example_config = Inr s0
      \<and> is_on (fst (snd (register_update (hub_returning (Return_registers [128])) s0))) = Some True
      \<and> is_on (fst (snd (register_update (hub_returning (Return_registers [5])) s0))) = Some False"
proof -
  have e: "example_config\<lparr>CONF_REGISTER_TYPE := CALL_TYPE_REGISTER_HOLDING, CONF_VERIFY_REGISTER := None\<rparr> = example_config"
    by (simp add: example_config_def)
  obtain s0 where s0: "init example_config = Inr s0"
    and f: "bit_read s0 = 8" "register_read s0 = 204" "slave s0 = Some 1"
      "is_on s0 = None" "available s0 = True"
    using init_example [where k = CALL_TYPE_REGISTER_HOLDING and v = None] by (simp add: e)
  have v: "CONF_VERIFY_STATE example_config" by (simp add: example_config_def)
  have l: "bit_read s0 \<le> 63" using f(1) by simp
  have i: "s0\<lparr>is_on := None, available := True\<rparr> = s0"
    using f(4,5) by simp
  have a: "respond (hub_returning (Return_registers [128]))
             (Read_holding_registers (slave s0) (register_read s0) 1) = Return_registers (128 # [])"
    by (simp add: hub_returning_def)
  have b: "respond (hub_returning (Return_registers [5]))
             (Read_holding_registers (slave s0) (register_read s0) 1) = Return_registers (5 # [])"
    by (simp add: hub_returning_def)
  show ?thesis
    using register_update_masked_outcomes [OF s0 v l a, where cached = None and av = True]
      register_update_masked_outcomes [OF s0 v l b, where cached = None and av = True] s0 f i
    by (simp add: Let_def)
qed

text \<open>
  Claim C3, evaluated on the code. The hub raises a connectivity exception during the
  verification read of \<^verbatim>\<open>update\<close>: availability is set to false and the cached
  state is kept, but the call to \<^verbatim>\<open>np.bitwise_and\<close> on the missing value raises
  \<^verbatim>\<open>TypeError\<close>, which leaves \<^verbatim>\<open>update\<close>.
\<close>

theorem register_update_raises_on_transport_failure:
  "\<exists>s0. init example_config = Inr s0
      \<and> register_update (hub_returning Raise_ConnectionException) s0 =
          ((hub_returning Raise_ConnectionException)\<lparr>calls := [Read_holding_registers (Some 1) 204 1]\<rparr>,
           s0\<lparr>available := False\<rparr>, Inl TypeError)"
proof -
  have e: "example_config\<lparr>CONF_REGISTER_TYPE := CALL_TYPE_REGISTER_HOLDING, CONF_VERIFY_REGISTER := None\<rparr> = example_config"
    by (simp add: example_config_def)
  obtain s0 where s0: "init example_config = Inr s0"
    and f: "state_on s0 = [204, 8, 8]" "slave s0 = Some 1" "verify_state s0"
    using init_example [where k = CALL_TYPE_REGISTER_HOLDING and v = None] by (simp add: e)
  show ?thesis
    using register_update_failure [of s0 "hub_returning Raise_ConnectionException"] s0 f
    by (simp add: hub_returning_def)
qed

section \<open>Properties of the register sensor\<close>

lemma bit_length_numeral [simp]:
  "bit_length 0 = 0"
  "bit_length (Suc 0) = 1"
  "bit_length (numeral Num.One) = 1"
  "bit_length (numeral (Num.Bit0 k)) = Suc (bit_length (numeral k))"
  "bit_length (numeral (Num.Bit1 k)) = Suc (bit_length (numeral k))"
proof -
  show "bit_length 0 = 0" by (simp add: bit_length.simps)
  show "bit_length (Suc 0) = 1" by (simp add: bit_length.simps)
  show "bit_length (numeral Num.One) = 1" by (simp add: bit_length.simps)
  show "bit_length (numeral (Num.Bit0 k)) = Suc (bit_length (numeral k))"
    by (subst bit_length.simps) (simp add: numeral_Bit0_div_2)
  show "bit_length (numeral (Num.Bit1 k)) = Suc (bit_length (numeral k))"
    by (subst bit_length.simps) (simp add: numeral_Bit1_div_2)
qed



lemma bits_of_word:
  fixes x :: "16 word"
  assumes "i < 16"
  shows "concat (map format_08b (to_bytes x)) ! i = bit_char (bit x (15 - i))"
proof -
  have "i \<in> {0, 1, 2, 3, 4, 5, 6, 7, 8, 9, 10, 11, 12, 13, 14, 15}"
    using assms by (simp add: insert_iff) arith
  then show ?thesis
    by (auto simp: format_08b_def to_bytes_def bit_ucast_iff bit_drop_bit_eq)
qed

lemma sensor_update_failed:
  assumes "respond w (sensor_request s) \<in>
             {Raise_ConnectionException, Return_ModbusException, Return_ExceptionResponse}"
  shows "sensor_update py w s =
           (w\<lparr>calls := calls w @ [sensor_request s]\<rparr>, s\<lparr>sensor_available := False\<rparr>, Inr ())"
  using assms by (auto simp: sensor_update_def sensor_request_def call_def)

lemma sensor_update_read:
  assumes "respond w (sensor_request s) = Return_registers regs"
  shows "sensor_update py w s =
           (case decode_value py s (byte_string_of s regs) of
              Inl e \<Rightarrow> (w\<lparr>calls := calls w @ [sensor_request s]\<rparr>, s, Inl e)
            | Inr v \<Rightarrow> (w\<lparr>calls := calls w @ [sensor_request s]\<rparr>,
                       s\<lparr>sensor_value := Some v, sensor_available := True\<rparr>, Inr ()))"
  using assms
  by (cases "sensor_register_type s")
    (simp_all add: sensor_update_def sensor_request_def call_def byte_string_of_def Let_def
      split: sum.splits)

text \<open>
  Claim C6. When the sensor's read fails (the hub raises a connectivity exception, or
  returns a protocol exception or an exception response), \<^verbatim>\<open>update\<close> returns
  normally with availability false and the cached value unchanged. An update whose read
  and decode succeed, from any state, stores the decoded value and sets availability
  to true.
\<close>

theorem sensor_update_availability:
  "(respond w (sensor_request s) \<in>
      {Raise_ConnectionException, Return_ModbusException, Return_ExceptionResponse} \<longrightarrow>
    sensor_update py w s =
      (w\<lparr>calls := calls w @ [sensor_request s]\<rparr>, s\<lparr>sensor_available := False\<rparr>, Inr ())
    \<and> sensor_value (fst (snd (sensor_update py w s))) = sensor_value s)
   \<and> (respond w (sensor_request s) = Return_registers regs
        \<and> decode_value py s (byte_string_of s regs) = Inr v \<longrightarrow>
      sensor_update py w s =
        (w\<lparr>calls := calls w @ [sensor_request s]\<rparr>,
         s\<lparr>sensor_value := Some v, sensor_available := True\<rparr>, Inr ()))"
  by (auto simp: sensor_update_failed sensor_update_read)

lemma decode_value_unpacked:
  assumes "sensor_bit s = None \<or> sensor_bit s = Some 0"
    and "sensor_data_type s \<noteq> DATA_TYPE_STRING"
    and "unpack py (struct_format s) bs = Inr val"
  shows "decode_value py s bs =
     (if length val > 1 then Inr (join '','' (map (py_str py) val))
      else
        (case val of
           [] \<Rightarrow> Inl IndexError
         | v # _ \<Rightarrow>
             (case as_number v of
                Some x \<Rightarrow>
                  (case py_mul py (scale s) x of
                     Inl e \<Rightarrow> Inl e
                   | Inr m \<Rightarrow>
                       (case py_add py m (offset s) of
                          Inl e \<Rightarrow> Inl e
                        | Inr (Int_number n) \<Rightarrow>
                            if precision s = 0 then Inr (str_int n)
                            else fixed_of_int n (precision s)
                        | Inr (Float_number f) \<Rightarrow> Inr (format_fixed py f (precision s))))
              | None \<Rightarrow> Inr (py_str py v))))"
  using assms by (auto simp: decode_value_def)

text \<open>
  Claim C7. When no bit index is configured, the data type is not String and the unpack
  yields more than one scalar, the stored value is the comma-joined string of
  \<^verbatim>\<open>str\<close> of the scalars in order, whatever scale, offset and precision are.
\<close>

theorem sensor_update_tuple:
  assumes "respond w (sensor_request s) = Return_registers regs"
    and "sensor_bit s = None \<or> sensor_bit s = Some 0"
    and "sensor_data_type s \<noteq> DATA_TYPE_STRING"
    and "unpack py (struct_format s) (byte_string_of s regs) = Inr val"
    and "length val > 1"
  shows "sensor_update py w (s\<lparr>scale := a, offset := b, precision := p\<rparr>) =
           (w\<lparr>calls := calls w @ [sensor_request s]\<rparr>,
            s\<lparr>scale := a, offset := b, precision := p,
              sensor_value := Some (join '','' (map (py_str py) val)),
              sensor_available := True\<rparr>, Inr ())"
proof -
  let ?t = "s\<lparr>scale := a, offset := b, precision := p\<rparr>"
  have r: "sensor_request ?t = sensor_request s"
    by (simp add: sensor_request_def)
  have b: "byte_string_of ?t regs = byte_string_of s regs"
    by (simp add: byte_string_of_def)
  have d: "decode_value py ?t (byte_string_of s regs) = Inr (join '','' (map (py_str py) val))"
    using decode_value_unpacked [of ?t py "byte_string_of s regs" val] assms(2-5) by simp
  show ?thesis
    using sensor_update_read [of w ?t regs py] assms(1) by (simp add: r b d)
qed


lemma length_bits: "length (concat (map format_08b (concat (map to_bytes rs)))) = 16 * length rs"
  by (induction rs) (simp_all add: format_08b_def to_bytes_def)

lemma set_bits: "set (concat (map format_08b bs)) \<subseteq> {CHR ''0'', CHR ''1''}"
  by (induction bs) (auto simp: format_08b_def bit_char_def)

lemma decode_value_bit:
  assumes "sensor_bit s = Some b" and "1 \<le> b" and "b \<le> int (length bits)"
    and "bits = concat (map format_08b bs)"
  shows "decode_value py s bs = Inr [bits ! nat (int (length bits) - b)]"
  using assms by (auto simp: decode_value_def py_index_def Let_def)

text \<open>
  Claim C4. With a bit index \<open>b\<close>, \<open>1 \<le> b \<le> 16 * count\<close>, the stored value is the
  single character at position \<open>16 * count - b\<close> of the bit string of the packed
  registers; it is \<^verbatim>\<open>0\<close> or \<^verbatim>\<open>1\<close>; for a single register it is bit \<open>b - 1\<close> of
  the word, counted from the least significant bit. Scale, offset, precision, data type
  and structure play no part.
\<close>

theorem sensor_update_bit:
  assumes "respond w (sensor_request s) = Return_registers regs"
    and "int (length regs) = count s"
    and "sensor_bit s = Some b" and "1 \<le> b" and "b \<le> 16 * count s"
  shows "let bits = concat (map format_08b (byte_string_of s regs));
             t = s\<lparr>scale := a, offset := k, precision := p, sensor_data_type := dt,
                   struct_format := f\<rparr>
         in sensor_update py w t =
              (w\<lparr>calls := calls w @ [sensor_request s]\<rparr>,
               t\<lparr>sensor_value := Some [bits ! nat (16 * count s - b)],
                 sensor_available := True\<rparr>, Inr ())
          \<and> length bits = nat (16 * count s)
          \<and> bits ! nat (16 * count s - b) \<in> {CHR ''0'', CHR ''1''}
          \<and> (\<forall>x. regs = [x] \<longrightarrow>
                bits ! nat (16 * count s - b) = bit_char (bit x (nat (b - 1))))"
proof -
  let ?bits = "concat (map format_08b (byte_string_of s regs))"
  let ?t = "s\<lparr>scale := a, offset := k, precision := p, sensor_data_type := dt,
               struct_format := f\<rparr>"
  have len: "int (length ?bits) = 16 * count s"
    using assms(2) by (simp add: byte_string_of_def length_bits)
  have r: "sensor_request ?t = sensor_request s"
    by (simp add: sensor_request_def)
  have bs: "byte_string_of ?t regs = byte_string_of s regs"
    by (simp add: byte_string_of_def)
  have d: "decode_value py ?t (byte_string_of s regs) = Inr [?bits ! nat (16 * count s - b)]"
    using decode_value_bit [of ?t b ?bits "byte_string_of s regs" py] assms(3,4,5) len
    by simp
  have u: "sensor_update py w ?t =
             (w\<lparr>calls := calls w @ [sensor_request s]\<rparr>,
              ?t\<lparr>sensor_value := Some [?bits ! nat (16 * count s - b)],
                 sensor_available := True\<rparr>, Inr ())"
    using sensor_update_read [of w ?t regs py] assms(1) by (simp add: r bs d)
  have l: "length ?bits = nat (16 * count s)"
    using len by simp
  have "nat (16 * count s - b) < length ?bits"
    using l assms(4,5) by simp
  then have m: "?bits ! nat (16 * count s - b) \<in> {CHR ''0'', CHR ''1''}"
    using set_bits [of "byte_string_of s regs"] nth_mem by blast
  have x: "?bits ! nat (16 * count s - b) = bit_char (bit x (nat (b - 1)))" if "regs = [x]" for x
  proof -
    have c: "count s = 1" using that assms(2) by simp
    have i: "nat (16 - b) < 16" using assms(4) by simp
    have e: "15 - nat (16 - b) = nat (b - 1)" using assms(4,5) c by simp
    have "?bits = concat (map format_08b (to_bytes x))"
      using that by (simp add: byte_string_of_def)
    then show ?thesis
      using bits_of_word [OF i, of x] by (simp add: c e)
  qed
  show ?thesis
    using u l m x by (simp add: Let_def)
qed

theorem sensor_update_bit_witness:
  "sensor_value (fst (snd (sensor_update example_python (hub_returning (Return_registers [5]))
      (example_sensor\<lparr>sensor_bit := Some 1\<rparr>)))) = Some ''1''
   \<and> sensor_value (fst (snd (sensor_update example_python (hub_returning (Return_registers [5]))
      (example_sensor\<lparr>sensor_bit := Some 16\<rparr>)))) = Some ''0''"
proof -
  let ?w = "hub_returning (Return_registers [5])"
  have a: "respond ?w (sensor_request (example_sensor\<lparr>sensor_bit := Some b\<rparr>)) =
             Return_registers [5]" for b
    by (simp add: hub_returning_def)
  have c: "int (length [5 :: 16 word]) = count (example_sensor\<lparr>sensor_bit := Some b\<rparr>)" for b
    by (simp add: example_sensor_def)
  have one: "sensor_bit (example_sensor\<lparr>sensor_bit := Some 1\<rparr>) = Some 1"
    and sixteen: "sensor_bit (example_sensor\<lparr>sensor_bit := Some 16\<rparr>) = Some 16"
    by simp_all
  have t: "s\<lparr>scale := scale s, offset := offset s, precision := precision s,
             sensor_data_type := sensor_data_type s, struct_format := struct_format s\<rparr> = s"
    for s :: sensor
    by simp
  show ?thesis
    using sensor_update_bit [OF a c one, where py = example_python
        and a = "scale example_sensor" and k = "offset example_sensor"
        and p = "precision example_sensor" and dt = "sensor_data_type example_sensor"
        and f = "struct_format example_sensor"]
      sensor_update_bit [OF a c sixteen, where py = example_python
        and a = "scale example_sensor" and k = "offset example_sensor"
        and p = "precision example_sensor" and dt = "sensor_data_type example_sensor"
        and f = "struct_format example_sensor"]
    by (simp add: Let_def example_sensor_def bit_char_def)
qed

lemma example_unpack_H:
  "unpack example_python ''>H'' (to_bytes 100) = Inr [Number (Int_number 100)]"
  by (simp add: example_python_def example_unpack_def to_bytes_def be_uint_def)

lemma example_unpack_HH:
  "unpack example_python ''>HH'' (to_bytes 1 @ to_bytes 2) =
     Inr [Number (Int_number 1), Number (Int_number 2)]"
  by (simp add: example_python_def example_unpack_def to_bytes_def be_uint_def)


lemma str_int_205: "str_int 205 = ''205''"
  by (simp add: str_int_def str_nat.simps)


theorem sensor_update_tuple_witness:
  "sensor_update example_python (hub_returning (Return_registers [1, 2]))
     (example_sensor\<lparr>count := 2, struct_format := ''>HH'',
        sensor_data_type := DATA_TYPE_CUSTOM, scale := Int_number 3, offset := Int_number 4,
        precision := 1\<rparr>) =
   ((hub_returning (Return_registers [1, 2]))\<lparr>calls := [Read_holding_registers (Some 1) 10 2]\<rparr>,
    example_sensor\<lparr>count := 2, struct_format := ''>HH'',
        sensor_data_type := DATA_TYPE_CUSTOM, scale := Int_number 3, offset := Int_number 4,
        precision := 1, sensor_value := Some ''1,2'', sensor_available := True\<rparr>, Inr ())"
proof -
  let ?s = "example_sensor\<lparr>count := 2, struct_format := ''>HH'',
              sensor_data_type := DATA_TYPE_CUSTOM\<rparr>"
  have v: "join '','' (map (py_str example_python)
             [Number (Int_number 1), Number (Int_number 2)]) = ''1,2''"
    by (simp add: py_str_def str_int_def str_nat.simps)
  show ?thesis
    using sensor_update_tuple [where w = "hub_returning (Return_registers [1, 2])" and s = ?s
        and regs = "[1, 2]" and py = example_python
        and val = "[Number (Int_number 1), Number (Int_number 2)]"
        and a = "Int_number 3" and b = "Int_number 4" and p = 1]
    by (simp add: hub_returning_def example_sensor_def byte_string_of_def example_unpack_HH
        sensor_request_def py_str_def str_int_def str_nat.simps)
qed

theorem sensor_update_availability_witness:
  "sensor_update example_python (hub_returning Raise_ConnectionException)
     (example_sensor\<lparr>sensor_value := Some ''7''\<rparr>) =
     ((hub_returning Raise_ConnectionException)\<lparr>calls := [Read_holding_registers (Some 1) 10 1]\<rparr>,
      example_sensor\<lparr>sensor_value := Some ''7'', sensor_available := False\<rparr>, Inr ())
   \<and> sensor_update example_python (hub_returning (Return_registers [100]))
     (example_sensor\<lparr>sensor_value := Some ''7'', sensor_available := False\<rparr>) =
     ((hub_returning (Return_registers [100]))\<lparr>calls := [Read_holding_registers (Some 1) 10 1]\<rparr>,
      example_sensor\<lparr>sensor_value := Some ''205'', sensor_available := True\<rparr>, Inr ())"
proof -
  let ?s = "example_sensor\<lparr>sensor_value := Some ''7'', sensor_available := False\<rparr>"
  have d: "decode_value example_python ?s (byte_string_of ?s [100]) = Inr ''205''"
    by (simp add: decode_value_def example_sensor_def byte_string_of_def example_unpack_H
        as_number_def py_mul_def py_add_def py_arith_def str_int_205)
  show ?thesis
    using sensor_update_availability [of "hub_returning Raise_ConnectionException"
        "example_sensor\<lparr>sensor_value := Some ''7''\<rparr>" example_python "[]" "[]"]
      sensor_update_availability [of "hub_returning (Return_registers [100])" ?s example_python
        "[100]" "''205''"] d
    by (simp add: hub_returning_def example_sensor_def sensor_request_def)
qed

end
